theory Spec2Isabelle
  imports Main "HOL-Library.Product_Lexorder"
begin

section \<open>Python strings: trimming, ordering, integer literals\<close>

text \<open>
  The handlers of \<^verbatim>\<open>controllers/control_auth.py\<close> read form fields as Python
  strings, trim them with \<^verbatim>\<open>str.strip()\<close>, compare them with the string order
  and convert them with \<^verbatim>\<open>int()\<close>. A Python string is modelled as a
  \<^typ>\<open>string\<close> whose characters are the code points below 256.
\<close>

definition is_space :: "char \<Rightarrow> bool" where
  \<comment> \<open>\<^verbatim>\<open>str.isspace\<close> on the code points below 256\<close>
  "is_space c = (of_char c \<in> set [9, 10, 11, 12, 13, 28, 29, 30, 31, 32, 133, 160 :: nat])"

definition strip :: "string \<Rightarrow> string" where
  "strip s = rev (dropWhile is_space (rev (dropWhile is_space s)))"

definition in_range :: "char \<Rightarrow> char \<Rightarrow> char \<Rightarrow> bool" where
  \<comment> \<open>a regular-expression class \<^verbatim>\<open>[lo-hi]\<close>\<close>
  "in_range lo hi c = ((of_char lo :: nat) \<le> of_char c \<and> (of_char c :: nat) \<le> of_char hi)"

definition is_digit :: "char \<Rightarrow> bool" where
  "is_digit c = in_range (CHR ''0'') (CHR ''9'') c"

definition digit_val :: "char \<Rightarrow> nat" where
  "digit_val c = of_char c - 48"

definition dec_val :: "string \<Rightarrow> nat" where
  \<comment> \<open>the value of a run of decimal digits; underscores are skipped\<close>
  "dec_val s = foldl (\<lambda>acc c. 10 * acc + digit_val c) 0 (filter is_digit s)"

fun digits_ok :: "string \<Rightarrow> bool" where
  \<comment> \<open>the digit part of an integer literal: digits, single underscores between them\<close>
  "digits_ok [] = False"
| "digits_ok [c] = is_digit c"
| "digits_ok (c # d # cs) =
     (if is_digit c then (if d = CHR ''_'' then digits_ok cs else digits_ok (d # cs))
      else False)"

definition int_space :: "char \<Rightarrow> bool" where
  \<comment> \<open>what \<^verbatim>\<open>int()\<close> skips around a literal: the ASCII white space, and the two
      white-space code points above 127, which it first rewrites to a blank. The
      separators 28 to 31, which \<^verbatim>\<open>str.strip()\<close> removes, are not skipped.\<close>
  "int_space c = (of_char c \<in> set [9, 10, 11, 12, 13, 32, 133, 160 :: nat])"

definition int_max_str_digits :: nat where
  \<comment> \<open>the default of \<^verbatim>\<open>sys.int_max_str_digits\<close>: a literal with more digits is
      refused with ValueError\<close>
  "int_max_str_digits = 4300"

definition literal_ok :: "string \<Rightarrow> bool" where
  "literal_ok ds = (digits_ok ds \<and> length (filter is_digit ds) \<le> int_max_str_digits)"

definition py_int :: "string \<Rightarrow> int option" where
  \<comment> \<open>\<^verbatim>\<open>int(s)\<close>; \<open>None\<close> is ValueError\<close>
  "py_int s =
     (case rev (dropWhile int_space (rev (dropWhile int_space s))) of
        [] \<Rightarrow> None
      | c # cs \<Rightarrow>
          if c = CHR ''-'' then (if literal_ok cs then Some (- int (dec_val cs)) else None)
          else if c = CHR ''+'' then (if literal_ok cs then Some (int (dec_val cs)) else None)
          else if literal_ok (c # cs) then Some (int (dec_val (c # cs)))
          else None)"

fun str_lt :: "string \<Rightarrow> string \<Rightarrow> bool" where
  \<comment> \<open>\<^verbatim>\<open>a < b\<close> on strings: lexicographic by code point, a proper prefix is smaller\<close>
  "str_lt [] [] = False"
| "str_lt [] (y # ys) = True"
| "str_lt (x # xs) [] = False"
| "str_lt (x # xs) (y # ys) =
     (if (of_char x :: nat) < of_char y then True
      else if (of_char y :: nat) < of_char x then False
      else str_lt xs ys)"

definition str_le :: "string \<Rightarrow> string \<Rightarrow> bool" where
  "str_le a b = (a = b \<or> str_lt a b)"

section \<open>Calendar dates and clock times of the datetime module\<close>

text \<open>
  A \<^verbatim>\<open>datetime.date\<close> is the triple (year, month, day) and a \<^verbatim>\<open>datetime.time\<close>
  read with \<^verbatim>\<open>%H:%M\<close> is the pair (hour, minute); Python orders both as tuples,
  which is the lexicographic order that \<^verbatim>\<open>HOL-Library.Product_Lexorder\<close> puts on products.
\<close>

type_synonym pydate = "nat \<times> nat \<times> nat"
type_synonym pytime = "nat \<times> nat"

definition is_leap :: "nat \<Rightarrow> bool" where
  "is_leap y = (y mod 4 = 0 \<and> (y mod 100 \<noteq> 0 \<or> y mod 400 = 0))"

definition days_in_month :: "nat \<Rightarrow> nat \<Rightarrow> nat" where
  "days_in_month y m =
     (if m = 2 then (if is_leap y then 29 else 28)
      else if m = 4 \<or> m = 6 \<or> m = 9 \<or> m = 11 then 30
      else 31)"

definition valid_date :: "pydate \<Rightarrow> bool" where
  "valid_date dt =
     (case dt of (y, m, d) \<Rightarrow>
        1 \<le> y \<and> y \<le> 9999 \<and> 1 \<le> m \<and> m \<le> 12 \<and> 1 \<le> d \<and> d \<le> days_in_month y m)"

fun re_month :: "string \<Rightarrow> nat option" where
  \<comment> \<open>directive \<^verbatim>\<open>%m\<close>: \<^verbatim>\<open>1[0-2]|0[1-9]|[1-9]\<close>\<close>
  "re_month [a, b] =
     (if a = CHR ''1'' \<and> in_range (CHR ''0'') (CHR ''2'') b then Some (10 + digit_val b)
      else if a = CHR ''0'' \<and> in_range (CHR ''1'') (CHR ''9'') b then Some (digit_val b)
      else None)"
| "re_month [a] = (if in_range (CHR ''1'') (CHR ''9'') a then Some (digit_val a) else None)"
| "re_month _ = None"

fun re_day :: "string \<Rightarrow> nat option" where
  \<comment> \<open>directive \<^verbatim>\<open>%d\<close>: \<^verbatim>\<open>3[0-1]|[1-2]\d|0[1-9]|[1-9]| [1-9]\<close>\<close>
  "re_day [a, b] =
     (if a = CHR ''3'' \<and> in_range (CHR ''0'') (CHR ''1'') b then Some (30 + digit_val b)
      else if in_range (CHR ''1'') (CHR ''2'') a \<and> is_digit b
        then Some (10 * digit_val a + digit_val b)
      else if a = CHR ''0'' \<and> in_range (CHR ''1'') (CHR ''9'') b then Some (digit_val b)
      else if a = CHR '' '' \<and> in_range (CHR ''1'') (CHR ''9'') b then Some (digit_val b)
      else None)"
| "re_day [a] = (if in_range (CHR ''1'') (CHR ''9'') a then Some (digit_val a) else None)"
| "re_day _ = None"

fun re_hour :: "string \<Rightarrow> nat option" where
  \<comment> \<open>directive \<^verbatim>\<open>%H\<close>: \<^verbatim>\<open>2[0-3]|[0-1]\d|\d\<close>\<close>
  "re_hour [a, b] =
     (if a = CHR ''2'' \<and> in_range (CHR ''0'') (CHR ''3'') b then Some (20 + digit_val b)
      else if in_range (CHR ''0'') (CHR ''1'') a \<and> is_digit b
        then Some (10 * digit_val a + digit_val b)
      else None)"
| "re_hour [a] = (if is_digit a then Some (digit_val a) else None)"
| "re_hour _ = None"

fun re_minute :: "string \<Rightarrow> nat option" where
  \<comment> \<open>directive \<^verbatim>\<open>%M\<close>: \<^verbatim>\<open>[0-5]\d|\d\<close>\<close>
  "re_minute [a, b] =
     (if in_range (CHR ''0'') (CHR ''5'') a \<and> is_digit b
        then Some (10 * digit_val a + digit_val b)
      else None)"
| "re_minute [a] = (if is_digit a then Some (digit_val a) else None)"
| "re_minute _ = None"

definition strptime_date :: "string \<Rightarrow> pydate option" where
  \<comment> \<open>\<^verbatim>\<open>datetime.strptime(s, '%Y-%m-%d').date()\<close>; \<open>None\<close> is ValueError. Four
      digits, a dash, the month up to the next dash, the day up to the end of the string;
      then the calendar check of the date constructor.\<close>
  "strptime_date s =
     (case s of
        y1 # y2 # y3 # y4 # dash # rest \<Rightarrow>
          if is_digit y1 \<and> is_digit y2 \<and> is_digit y3 \<and> is_digit y4 \<and> dash = CHR ''-'' then
            (case dropWhile (\<lambda>c. c \<noteq> CHR ''-'') rest of
               [] \<Rightarrow> None
             | _ # dseg \<Rightarrow>
                 (case re_month (takeWhile (\<lambda>c. c \<noteq> CHR ''-'') rest) of
                    None \<Rightarrow> None
                  | Some m \<Rightarrow>
                      (case re_day dseg of
                         None \<Rightarrow> None
                       | Some d \<Rightarrow>
                           if valid_date (dec_val [y1, y2, y3, y4], m, d)
                           then Some (dec_val [y1, y2, y3, y4], m, d)
                           else None)))
          else None
      | _ \<Rightarrow> None)"

definition strptime_time :: "string \<Rightarrow> pytime option" where
  \<comment> \<open>\<^verbatim>\<open>datetime.strptime(s, '%H:%M').time()\<close>; \<open>None\<close> is ValueError\<close>
  "strptime_time s =
     (case dropWhile (\<lambda>c. c \<noteq> CHR '':'') s of
        [] \<Rightarrow> None
      | _ # mseg \<Rightarrow>
          (case re_hour (takeWhile (\<lambda>c. c \<noteq> CHR '':'') s) of
             None \<Rightarrow> None
           | Some h \<Rightarrow>
               (case re_minute mseg of
                  None \<Rightarrow> None
                | Some m \<Rightarrow> Some (h, m))))"

definition next_day :: "pydate \<Rightarrow> pydate" where
  "next_day dt =
     (case dt of (y, m, d) \<Rightarrow>
        if d < days_in_month y m then (y, m, d + 1)
        else if m < 12 then (y, m + 1, 1)
        else (y + 1, 1, 1))"

definition date_add_days :: "pydate \<Rightarrow> nat \<Rightarrow> pydate option" where
  \<comment> \<open>\<^verbatim>\<open>d + timedelta(days=n)\<close>; \<open>None\<close> is OverflowError (past year 9999)\<close>
  "date_add_days dt n =
     (let r = (next_day ^^ n) dt in if fst r \<le> 9999 then Some r else None)"

section \<open>The store\<close>

text \<open>
  The tables of \<^verbatim>\<open>models.py\<close> that the booking, availability and status handlers
  read and write, each as the list of its rows in the order a query returns them.
  Column \<^verbatim>\<open>id\<close> is written \<open>appt_id\<close>, \<open>avail_id\<close>, \<open>doctor_pk\<close>.
\<close>

record appointment =
  appt_id :: int
  patient_id :: int
  doctor_id :: int
  date :: string
  time :: string
  status :: string
  reason :: string

record doctor_availability =
  avail_id :: int
  avail_doctor_id :: int
  start_date :: string
  end_date :: string
  start_time :: string
  end_time :: string

record doctor =
  doctor_pk :: int
  name :: string
  specialization :: string
  is_blacklisted :: "bool option"

record db =
  appointments :: "appointment list"
  availability :: "doctor_availability list"
  doctors :: "doctor list"

text \<open>
  What the model takes from the store and the libraries, which are not part of the
  repository:
  \<^item> \<^verbatim>\<open>.first()\<close> is the first matching row of the table's list, and
    \<^verbatim>\<open>get_or_404\<close> the row with the given primary key;
  \<^item> a commit succeeds, so the \<^verbatim>\<open>except\<close> branches around
    \<^verbatim>\<open>db.session.commit()\<close>, which roll back and leave the store as it was, are
    not modelled;
  \<^item> the store is SQLite (\<^verbatim>\<open>main.py\<close>): an integer it is handed must fit in
    64 bits, or the driver raises OverflowError (\<open>first_availability\<close>), and an integer
    column compared with a text parameter is compared with the number the text spells,
    if it spells one (\<open>sqlite_text_int\<close>).
\<close>

type_synonym form = "string \<rightharpoonup> string"

definition form_get :: "form \<Rightarrow> string \<Rightarrow> string" where
  \<comment> \<open>\<^verbatim>\<open>request.form.get(key, '')\<close>\<close>
  "form_get f k = (case f k of None \<Rightarrow> [] | Some v \<Rightarrow> v)"

definition next_id :: "int list \<Rightarrow> int" where
  \<comment> \<open>the primary key the store gives a new row: one more than the largest in use\<close>
  "next_id ids = fold max ids 0 + 1"

definition int64 :: "int \<Rightarrow> bool" where
  \<comment> \<open>the integers the store holds and accepts as parameters\<close>
  "int64 k = (- (2 ^ 63) \<le> k \<and> k < 2 ^ 63)"

definition sqlite_space :: "char \<Rightarrow> bool" where
  "sqlite_space c = (of_char c \<in> set [9, 10, 11, 12, 13, 32 :: nat])"

definition sqlite_text_int :: "string \<Rightarrow> int option" where
  \<comment> \<open>the integer that the comparison of an integer column with the text parameter \<open>s\<close>
      reads from \<open>s\<close>: blanks, a sign, decimal digits, blanks, the value within 64 bits.
      \<open>None\<close>: the text spells no integer and equals no integer of the column. (A
      text that spells a real number, with a point or an exponent, is compared as that
      number; no such text passes \<^verbatim>\<open>int()\<close>, and the handler hands the store only
      texts that did.)\<close>
  "sqlite_text_int s =
     (case dropWhile sqlite_space s of
        [] \<Rightarrow> None
      | c # cs \<Rightarrow>
          (let body = (if c = CHR ''-'' \<or> c = CHR ''+'' then cs else c # cs);
               ds = takeWhile is_digit body;
               v = (if c = CHR ''-'' then - int (dec_val ds) else int (dec_val ds))
           in if ds \<noteq> [] \<and> list_all sqlite_space (dropWhile is_digit body) \<and> int64 v
              then Some v else None))"

datatype store_exc = OverflowError

definition first_availability :: "db \<Rightarrow> int \<Rightarrow> store_exc + doctor_availability option" where
  \<comment> \<open>\<^verbatim>\<open>DoctorAvailability.query.filter_by(doctor_id=d).first()\<close>\<close>
  "first_availability s d =
     (if int64 d then Inr (find (\<lambda>w. avail_doctor_id w = d) (availability s))
      else Inl OverflowError)"

section \<open>Booking: the POST branch of patient_book_appointment\<close>

datatype booking_error =
    MissingField      \<comment> \<open>'Doctor, date, and time are required.'\<close>
  | MalformedInput    \<comment> \<open>'Error verifying doctor availability.'\<close>
  | NoAvailability    \<comment> \<open>'Doctor has not set any availability yet. ...'\<close>
  | DateOutOfRange    \<comment> \<open>'Doctor is available from ... to ...'\<close>
  | TimeOutOfRange    \<comment> \<open>'Doctor is only available from ... to ...'\<close>
  | SlotTaken         \<comment> \<open>'This time slot is already booked. Please choose another.'\<close>
  | PatientConflict   \<comment> \<open>'You already have an appointment at this time.'\<close>

definition check_availability :: "db \<Rightarrow> string \<Rightarrow> string \<Rightarrow> string \<Rightarrow> booking_error + int" where
  \<comment> \<open>the \<^verbatim>\<open>try\<close> block of lines 852-877: every exception is MalformedInput; on
      success the value of \<^verbatim>\<open>int(doc_id)\<close>\<close>
  "check_availability s doc_id dt tm =
     (case strptime_date dt of
        None \<Rightarrow> Inl MalformedInput
      | Some booking_date \<Rightarrow>
     (case py_int doc_id of
        None \<Rightarrow> Inl MalformedInput
      | Some d \<Rightarrow>
     (case first_availability s d of
        Inl exc \<Rightarrow> Inl MalformedInput
      | Inr None \<Rightarrow> Inl NoAvailability
      | Inr (Some avail) \<Rightarrow>
     (case strptime_date (start_date avail) of
        None \<Rightarrow> Inl MalformedInput
      | Some avail_start \<Rightarrow>
     (case strptime_date (end_date avail) of
        None \<Rightarrow> Inl MalformedInput
      | Some avail_end \<Rightarrow>
          if \<not> (avail_start \<le> booking_date \<and> booking_date \<le> avail_end)
            then Inl DateOutOfRange
          else if str_lt tm (start_time avail) \<or> str_lt (end_time avail) tm
            then Inl TimeOutOfRange
          else Inr d)))))"

definition patient_book_appointment :: "int \<Rightarrow> form \<Rightarrow> db \<Rightarrow> (booking_error + unit) \<times> db" where
  \<comment> \<open>\<open>pat_id\<close> is \<^verbatim>\<open>session.get('user_id')\<close>; the result is the outcome and the
      store after the request. The double-booking query of line 880 is handed the string
      \<open>doc_id\<close>, the two other uses of the doctor (lines 857 and 891) the integer
      \<^verbatim>\<open>int(doc_id)\<close>.\<close>
  "patient_book_appointment pat_id f s =
     (let dt = strip (form_get f ''date'');
          tm = strip (form_get f ''time'');
          rsn = strip (form_get f ''reason'')
      in case f ''doctor_id'' of
           None \<Rightarrow> (Inl MissingField, s)
         | Some doc_id \<Rightarrow>
             if doc_id = [] \<or> dt = [] \<or> tm = [] then (Inl MissingField, s)
             else
               (case check_availability s doc_id dt tm of
                  Inl e \<Rightarrow> (Inl e, s)
                | Inr d \<Rightarrow>
                    if find (\<lambda>a. sqlite_text_int doc_id = Some (doctor_id a) \<and>
                                   date a = dt \<and> time a = tm)
                         (appointments s) \<noteq> None
                      then (Inl SlotTaken, s)
                    else if find (\<lambda>a. patient_id a = pat_id \<and> date a = dt \<and> time a = tm)
                         (appointments s) \<noteq> None
                      then (Inl PatientConflict, s)
                    else
                      (Inr (),
                       s\<lparr>appointments := appointments s @
                           [\<lparr>appt_id = next_id (map appt_id (appointments s)),
                             patient_id = pat_id, doctor_id = d, date = dt, time = tm,
                             status = ''Booked'', reason = rsn\<rparr>]\<rparr>)))"

section \<open>Availability registration: doctor_add_availability\<close>

datatype avail_error =
    FieldsRequired         \<comment> \<open>'All availability fields are required.'\<close>
  | InvalidDate            \<comment> \<open>'Invalid date format.'\<close>
  | StartInPast            \<comment> \<open>'Start date cannot be in the past.'\<close>
  | RangeTooFar            \<comment> \<open>'You can only set availability within the next 7 days.'\<close>
  | EndBeforeStart         \<comment> \<open>'End date must be after or equal to start date.'\<close>
  | InvalidTime            \<comment> \<open>'Invalid time format.'\<close>
  | EndTimeNotAfterStart   \<comment> \<open>'End time must be after start time.'\<close>
  | UncaughtOverflow       \<comment> \<open>OverflowError of the date addition, which no handler catches\<close>

definition doctor_add_availability ::
  "pydate \<Rightarrow> int \<Rightarrow> form \<Rightarrow> db \<Rightarrow> (avail_error + unit) \<times> db" where
  \<comment> \<open>\<open>today\<close> is \<^verbatim>\<open>datetime.utcnow().date()\<close>, \<open>doc_id\<close> is
      \<^verbatim>\<open>session.get('user_id')\<close>\<close>
  "doctor_add_availability today doc_id f s =
     (let sd = strip (form_get f ''start_date'');
          ed = strip (form_get f ''end_date'');
          st = strip (form_get f ''start_time'');
          et = strip (form_get f ''end_time'')
      in if sd = [] \<or> ed = [] \<or> st = [] \<or> et = [] then (Inl FieldsRequired, s)
         else
     (case strptime_date sd of
        None \<Rightarrow> (Inl InvalidDate, s)
      | Some start_date_obj \<Rightarrow>
     (case strptime_date ed of
        None \<Rightarrow> (Inl InvalidDate, s)
      | Some end_date_obj \<Rightarrow>
     (case date_add_days today 7 of
        None \<Rightarrow> (Inl UncaughtOverflow, s)
      | Some max_date \<Rightarrow>
          if start_date_obj < today then (Inl StartInPast, s)
          else if end_date_obj > max_date then (Inl RangeTooFar, s)
          else if end_date_obj < start_date_obj then (Inl EndBeforeStart, s)
          else
     (case strptime_time st of
        None \<Rightarrow> (Inl InvalidTime, s)
      | Some start_time_obj \<Rightarrow>
     (case strptime_time et of
        None \<Rightarrow> (Inl InvalidTime, s)
      | Some end_time_obj \<Rightarrow>
          if end_time_obj \<le> start_time_obj then (Inl EndTimeNotAfterStart, s)
          else
            (Inr (),
             s\<lparr>availability := availability s @
                 [\<lparr>avail_id = next_id (map avail_id (availability s)),
                   avail_doctor_id = doc_id, start_date = sd, end_date = ed,
                   start_time = st, end_time = et\<rparr>]\<rparr>)))))))"

section \<open>Status, reschedule, cancel and the other writers of the store\<close>

datatype handler_error =
    NotFound            \<comment> \<open>\<^verbatim>\<open>get_or_404\<close> found no row\<close>
  | NotAuthorized       \<comment> \<open>'Not authorized ...'\<close>
  | InvalidStatus       \<comment> \<open>'Invalid status.'\<close>
  | DateTimeRequired    \<comment> \<open>'Date and time required.'\<close>
  | SlotConflict        \<comment> \<open>'This time slot is already booked.'\<close>

definition set_appt :: "int \<Rightarrow> (appointment \<Rightarrow> appointment) \<Rightarrow> appointment list \<Rightarrow> appointment list" where
  \<comment> \<open>attribute writes on the row with primary key \<open>i\<close>, committed\<close>
  "set_appt i g rows = map (\<lambda>a. if appt_id a = i then g a else a) rows"

definition admin_update_appointment_status ::
  "int \<Rightarrow> form \<Rightarrow> db \<Rightarrow> (handler_error + unit) \<times> db" where
  "admin_update_appointment_status i f s =
     (case find (\<lambda>a. appt_id a = i) (appointments s) of
        None \<Rightarrow> (Inl NotFound, s)
      | Some appt \<Rightarrow>
          (case f ''status'' of
             None \<Rightarrow> (Inl InvalidStatus, s)
           | Some new_status \<Rightarrow>
               if new_status \<notin> set [''Booked'', ''Completed'', ''Cancelled'']
                 then (Inl InvalidStatus, s)
               else (Inr (),
                     s\<lparr>appointments :=
                         set_appt i (\<lambda>a. a\<lparr>status := new_status\<rparr>) (appointments s)\<rparr>)))"

definition doctor_update_appointment_status ::
  "int \<Rightarrow> int \<Rightarrow> form \<Rightarrow> db \<Rightarrow> (handler_error + unit) \<times> db" where
  "doctor_update_appointment_status doc_id i f s =
     (case find (\<lambda>a. appt_id a = i) (appointments s) of
        None \<Rightarrow> (Inl NotFound, s)
      | Some appt \<Rightarrow>
          if doctor_id appt \<noteq> doc_id then (Inl NotAuthorized, s)
          else
          (case f ''status'' of
             None \<Rightarrow> (Inl InvalidStatus, s)
           | Some new_status \<Rightarrow>
               if new_status \<notin> set [''Booked'', ''Completed'', ''Cancelled'']
                 then (Inl InvalidStatus, s)
               else (Inr (),
                     s\<lparr>appointments :=
                         set_appt i (\<lambda>a. a\<lparr>status := new_status\<rparr>) (appointments s)\<rparr>)))"

definition patient_reschedule_appointment ::
  "int \<Rightarrow> int \<Rightarrow> form \<Rightarrow> db \<Rightarrow> (handler_error + unit) \<times> db" where
  \<comment> \<open>the POST branch\<close>
  "patient_reschedule_appointment pat_id i f s =
     (case find (\<lambda>a. appt_id a = i) (appointments s) of
        None \<Rightarrow> (Inl NotFound, s)
      | Some appt \<Rightarrow>
          if patient_id appt \<noteq> pat_id then (Inl NotAuthorized, s)
          else
            (let new_date = strip (form_get f ''date'');
                 new_time = strip (form_get f ''time'')
             in if new_date = [] \<or> new_time = [] then (Inl DateTimeRequired, s)
                else if find (\<lambda>a. doctor_id a = doctor_id appt \<and> date a = new_date \<and>
                                    time a = new_time \<and> appt_id a \<noteq> i)
                          (appointments s) \<noteq> None
                  then (Inl SlotConflict, s)
                else (Inr (),
                      s\<lparr>appointments :=
                          set_appt i (\<lambda>a. a\<lparr>date := new_date, time := new_time\<rparr>)
                            (appointments s)\<rparr>)))"

definition patient_cancel_appointment ::
  "int \<Rightarrow> int \<Rightarrow> db \<Rightarrow> (handler_error + unit) \<times> db" where
  "patient_cancel_appointment pat_id i s =
     (case find (\<lambda>a. appt_id a = i) (appointments s) of
        None \<Rightarrow> (Inl NotFound, s)
      | Some appt \<Rightarrow>
          if patient_id appt \<noteq> pat_id then (Inl NotAuthorized, s)
          else (Inr (),
                s\<lparr>appointments :=
                    set_appt i (\<lambda>a. a\<lparr>status := ''Cancelled''\<rparr>) (appointments s)\<rparr>))"

definition doctor_delete_availability ::
  "int \<Rightarrow> int \<Rightarrow> db \<Rightarrow> (handler_error + unit) \<times> db" where
  "doctor_delete_availability doc_id i s =
     (case find (\<lambda>w. avail_id w = i) (availability s) of
        None \<Rightarrow> (Inl NotFound, s)
      | Some avail \<Rightarrow>
          if avail_doctor_id avail \<noteq> doc_id then (Inl NotAuthorized, s)
          else (Inr (), s\<lparr>availability := filter (\<lambda>w. avail_id w \<noteq> i) (availability s)\<rparr>))"

definition admin_toggle_doctor_blacklist :: "int \<Rightarrow> db \<Rightarrow> (handler_error + unit) \<times> db" where
  "admin_toggle_doctor_blacklist i s =
     (case find (\<lambda>d. doctor_pk d = i) (doctors s) of
        None \<Rightarrow> (Inl NotFound, s)
      | Some doc \<Rightarrow>
          (Inr (),
           s\<lparr>doctors :=
               map (\<lambda>d. if doctor_pk d = i
                         then d\<lparr>is_blacklisted :=
                                 Some (\<not> (case is_blacklisted d of None \<Rightarrow> False | Some b \<Rightarrow> b))\<rparr>
                         else d)
                 (doctors s)\<rparr>))"

definition patient_search_doctors ::
  "(string \<Rightarrow> string \<Rightarrow> bool) \<Rightarrow> form \<Rightarrow> db \<Rightarrow> doctor list" where
  \<comment> \<open>the list \<^verbatim>\<open>doctors\<close> handed to the template. \<open>ilike v p\<close> is the store's
      case-insensitive pattern match of value \<open>v\<close> against pattern \<open>p\<close>, a parameter.\<close>
  "patient_search_doctors ilike args s =
     (let spec = strip (form_get args ''specialization'');
          doctor_name = strip (form_get args ''name'');
          q0 = filter (\<lambda>d. is_blacklisted d = Some False) (doctors s);
          q1 = (if spec \<noteq> [] then filter (\<lambda>d. specialization d = spec) q0 else q0)
      in if doctor_name \<noteq> []
         then filter (\<lambda>d. ilike (name d) (''%'' @ doctor_name @ ''%'')) q1
         else q1)"

text \<open>
  One request to a handler that writes the appointment, availability or doctor table,
  and a run of such requests. The remaining handlers (registration, profiles, treatment
  records, the read-only pages) write none of the three tables.
\<close>

datatype request =
    AdminUpdateStatus int form
  | DoctorUpdateStatus int int form
  | PatientBook int form
  | PatientReschedule int int form
  | PatientCancel int int
  | DoctorAddAvailability pydate int form
  | DoctorDeleteAvailability int int
  | AdminToggleDoctorBlacklist int

fun handle :: "request \<Rightarrow> db \<Rightarrow> db" where
  "handle (AdminUpdateStatus i f) s = snd (admin_update_appointment_status i f s)"
| "handle (DoctorUpdateStatus doc i f) s = snd (doctor_update_appointment_status doc i f s)"
| "handle (PatientBook pat f) s = snd (patient_book_appointment pat f s)"
| "handle (PatientReschedule pat i f) s = snd (patient_reschedule_appointment pat i f s)"
| "handle (PatientCancel pat i) s = snd (patient_cancel_appointment pat i s)"
| "handle (DoctorAddAvailability today doc f) s = snd (doctor_add_availability today doc f s)"
| "handle (DoctorDeleteAvailability doc i) s = snd (doctor_delete_availability doc i s)"
| "handle (AdminToggleDoctorBlacklist i) s = snd (admin_toggle_doctor_blacklist i s)"

fun run :: "request list \<Rightarrow> db \<Rightarrow> db" where
  "run [] s = s"
| "run (r # rs) s = run rs (handle r s)"

fun writes_status :: "request \<Rightarrow> int \<Rightarrow> bool" where
  \<comment> \<open>the request goes to one of the three handlers that assign \<^verbatim>\<open>appt.status\<close>
      and addresses the appointment with primary key \<open>k\<close>\<close>
  "writes_status (AdminUpdateStatus i f) k = (k = i)"
| "writes_status (DoctorUpdateStatus doc i f) k = (k = i)"
| "writes_status (PatientCancel pat i) k = (k = i)"
| "writes_status _ k = False"

section \<open>Example data\<close>

definition window1 :: doctor_availability where
  "window1 = \<lparr>avail_id = 1, avail_doctor_id = 1, start_date = ''2024-06-01'',
     end_date = ''2024-06-07'', start_time = ''09:00'', end_time = ''17:00''\<rparr>"

definition window2 :: doctor_availability where
  "window2 = \<lparr>avail_id = 2, avail_doctor_id = 2, start_date = ''2024-06-01'',
     end_date = ''2024-06-07'', start_time = ''09:00'', end_time = ''17:00''\<rparr>"

definition appt1 :: "string \<Rightarrow> appointment" where
  \<comment> \<open>patient 7 with doctor 1 on 2024-06-05 at 10:00, in the given status\<close>
  "appt1 st = \<lparr>appt_id = 1, patient_id = 7, doctor_id = 1, date = ''2024-06-05'',
     time = ''10:00'', status = st, reason = []\<rparr>"

definition store0 :: db where
  "store0 = \<lparr>appointments = [], availability = [window1, window2],
     doctors = [\<lparr>doctor_pk = 1, name = ''Dr. John Smith'', specialization = ''Cardiology'',
                 is_blacklisted = Some True\<rparr>,
                \<lparr>doctor_pk = 2, name = ''Dr. Sarah Jones'', specialization = ''Neurology'',
                 is_blacklisted = Some False\<rparr>]\<rparr>"

definition store1 :: "string \<Rightarrow> db" where
  "store1 st = store0\<lparr>appointments := [appt1 st]\<rparr>"

definition window10 :: doctor_availability where
  "window10 = \<lparr>avail_id = 1, avail_doctor_id = 10, start_date = ''2024-06-01'',
     end_date = ''2024-06-07'', start_time = ''09:00'', end_time = ''17:00''\<rparr>"

definition appt10 :: appointment where
  \<comment> \<open>patient 7 with doctor 10 on 2024-06-05 at 10:00\<close>
  "appt10 = \<lparr>appt_id = 1, patient_id = 7, doctor_id = 10, date = ''2024-06-05'',
     time = ''10:00'', status = ''Booked'', reason = []\<rparr>"

definition store10 :: db where
  "store10 = \<lparr>appointments = [appt10], availability = [window10],
     doctors = [\<lparr>doctor_pk = 10, name = ''Dr. Mike Johnson'',
                 specialization = ''Orthopedics'', is_blacklisted = Some False\<rparr>]\<rparr>"

definition book_form :: "string \<Rightarrow> string \<Rightarrow> string \<Rightarrow> form" where
  "book_form doc dt tm = [''doctor_id'' \<mapsto> doc, ''date'' \<mapsto> dt, ''time'' \<mapsto> tm]"

definition avail_form :: "string \<Rightarrow> string \<Rightarrow> string \<Rightarrow> string \<Rightarrow> form" where
  "avail_form sd ed st et =
     [''start_date'' \<mapsto> sd, ''end_date'' \<mapsto> ed, ''start_time'' \<mapsto> st, ''end_time'' \<mapsto> et]"

section \<open>Facts about the model\<close>

lemmas parse_defs = strptime_date_def strptime_time_def is_digit_def in_range_def digit_val_def
  dec_val_def valid_date_def days_in_month_def is_leap_def py_int_def strip_def is_space_def
  int_space_def int_max_str_digits_def literal_ok_def int64_def sqlite_space_def
  sqlite_text_int_def first_availability_def

lemmas data_defs = window1_def window2_def appt1_def store0_def store1_def book_form_def
  avail_form_def form_get_def window10_def appt10_def store10_def

lemma of_char_nat_inj: "(of_char x :: nat) = of_char y \<longleftrightarrow> x = y"
  by (metis char_of_char)

lemma str_lt_irrefl: "\<not> str_lt a a"
  by (induction a) auto

lemma str_lt_total: "(\<not> str_lt b a) = str_le a b"
  unfolding str_le_def
  by (induction a b rule: str_lt.induct) (auto simp: of_char_nat_inj)

lemma py_int_Nil: "py_int [] = None"
  by (simp add: py_int_def)

lemma strptime_date_Nil: "strptime_date [] = None"
  by (simp add: strptime_date_def)

lemma check_availability_Inr:
  "check_availability s doc dt tm = Inr d \<Longrightarrow> py_int doc = Some d \<and> strptime_date dt \<noteq> None"
  by (auto simp: check_availability_def split: option.splits sum.splits if_splits)

text \<open>With the three required fields present, the request reaches the availability check.\<close>

lemma patient_book_appointment_fields:
  assumes "f ''doctor_id'' = Some doc" and "doc \<noteq> []"
    and "strip (form_get f ''date'') \<noteq> []" and "strip (form_get f ''time'') \<noteq> []"
  shows "patient_book_appointment pat f s =
    (case check_availability s doc (strip (form_get f ''date'')) (strip (form_get f ''time'')) of
       Inl e \<Rightarrow> (Inl e, s)
     | Inr d \<Rightarrow>
         if find (\<lambda>a. sqlite_text_int doc = Some (doctor_id a) \<and>
                      date a = strip (form_get f ''date'') \<and>
                      time a = strip (form_get f ''time''))
              (appointments s) \<noteq> None
           then (Inl SlotTaken, s)
         else if find (\<lambda>a. patient_id a = pat \<and> date a = strip (form_get f ''date'') \<and>
                      time a = strip (form_get f ''time''))
              (appointments s) \<noteq> None
           then (Inl PatientConflict, s)
         else
           (Inr (),
            s\<lparr>appointments := appointments s @
                [\<lparr>appt_id = next_id (map appt_id (appointments s)),
                  patient_id = pat, doctor_id = d, date = strip (form_get f ''date''),
                  time = strip (form_get f ''time''),
                  status = ''Booked'', reason = strip (form_get f ''reason'')\<rparr>]\<rparr>))"
  using assms by (simp add: patient_book_appointment_def Let_def)

section \<open>The booking validator\<close>

text \<open>
  Claim C3. A booking request that names a doctor with no availability window on record,
  with a date that parses and a time that is present, is rejected with NoAvailability and
  the store is left as it was: no appointment is created. The doctor is named by an
  identifier of the store, an integer of its 64-bit column.
\<close>

theorem no_availability_rejected:
  assumes "f ''doctor_id'' = Some doc" and "py_int doc = Some d" and "int64 d"
    and "d \<notin> avail_doctor_id ` set (availability s)"
    and "strptime_date (strip (form_get f ''date'')) = Some bd"
    and "strip (form_get f ''time'') \<noteq> []"
  shows "patient_book_appointment pat f s = (Inl NoAvailability, s)"
proof -
  have doc: "doc \<noteq> []" using assms(2) py_int_Nil by auto
  have dt: "strip (form_get f ''date'') \<noteq> []" using assms(5) strptime_date_Nil by auto
  have "find (\<lambda>w. avail_doctor_id w = d) (availability s) = None"
    using assms(4) by (auto simp: find_None_iff)
  then have nf: "first_availability s d = Inr None"
    using assms(3) by (simp add: first_availability_def)
  have "check_availability s doc (strip (form_get f ''date'')) (strip (form_get f ''time''))
          = Inl NoAvailability"
    by (simp add: check_availability_def assms(2,5) nf)
  then show ?thesis
    by (simp add: patient_book_appointment_fields [OF assms(1) doc dt assms(6)])
qed

theorem no_availability_rejected_witness:
  "patient_book_appointment 7 (book_form ''3'' ''2024-06-05'' ''10:00'') store0
     = (Inl NoAvailability, store0)"
proof -
  have h1: "book_form ''3'' ''2024-06-05'' ''10:00'' ''doctor_id'' = Some ''3''"
    by (simp add: data_defs)
  have h2: "py_int ''3'' = Some 3" by (simp add: parse_defs)
  have hr: "int64 3" by (simp add: int64_def)
  have h3: "3 \<notin> avail_doctor_id ` set (availability store0)" by (simp add: data_defs)
  have h4: "strptime_date (strip (form_get (book_form ''3'' ''2024-06-05'' ''10:00'') ''date''))
              = Some (2024, 6, 5)"
    by (simp add: data_defs parse_defs)
  have h5: "strip (form_get (book_form ''3'' ''2024-06-05'' ''10:00'') ''time'') \<noteq> []"
    by (simp add: data_defs parse_defs)
  show ?thesis by (rule no_availability_rejected [OF h1 h2 hr h3 h4 h5])
qed

lemma next_day_greater: "dt < next_day dt"
  by (cases dt) (auto simp: next_day_def)

lemma check_availability_window:
  assumes "py_int doc = Some d"
    and "first_availability s d = Inr (Some w)"
    and "strptime_date (start_date w) = Some sd" and "strptime_date (end_date w) = Some ed"
    and "strptime_date dt = Some bd"
  shows "check_availability s doc dt tm =
    (if \<not> (sd \<le> bd \<and> bd \<le> ed) then Inl DateOutOfRange
     else if str_lt tm (start_time w) \<or> str_lt (end_time w) tm then Inl TimeOutOfRange
     else Inr d)"
  using assms by (simp add: check_availability_def)

lemma book_after_check:
  assumes "f ''doctor_id'' = Some doc" and "py_int doc = Some d"
    and "strptime_date (strip (form_get f ''date'')) = Some bd"
    and "strip (form_get f ''time'') \<noteq> []"
    and "check_availability s doc (strip (form_get f ''date'')) (strip (form_get f ''time'')) = Inl e"
  shows "patient_book_appointment pat f s = (Inl e, s)"
proof -
  have doc: "doc \<noteq> []" using assms(2) py_int_Nil by auto
  have dt: "strip (form_get f ''date'') \<noteq> []" using assms(3) strptime_date_Nil by auto
  show ?thesis
    by (simp add: patient_book_appointment_fields [OF assms(1) doc dt assms(4)] assms(5))
qed

lemma book_after_pass:
  assumes "f ''doctor_id'' = Some doc"
    and "strip (form_get f ''time'') \<noteq> []"
    and "check_availability s doc (strip (form_get f ''date'')) (strip (form_get f ''time'')) = Inr d"
  shows "fst (patient_book_appointment pat f s) \<in> {Inl SlotTaken, Inl PatientConflict, Inr ()}"
    and "patient_book_appointment pat f s =
      (if find (\<lambda>a. sqlite_text_int doc = Some (doctor_id a) \<and>
                      date a = strip (form_get f ''date'') \<and>
                      time a = strip (form_get f ''time''))
              (appointments s) \<noteq> None
           then (Inl SlotTaken, s)
         else if find (\<lambda>a. patient_id a = pat \<and> date a = strip (form_get f ''date'') \<and>
                      time a = strip (form_get f ''time''))
              (appointments s) \<noteq> None
           then (Inl PatientConflict, s)
         else
           (Inr (),
            s\<lparr>appointments := appointments s @
                [\<lparr>appt_id = next_id (map appt_id (appointments s)),
                  patient_id = pat, doctor_id = d, date = strip (form_get f ''date''),
                  time = strip (form_get f ''time''),
                  status = ''Booked'', reason = strip (form_get f ''reason'')\<rparr>]\<rparr>))"
proof -
  from check_availability_Inr [OF assms(3)]
  have p: "py_int doc = Some d" and q: "strptime_date (strip (form_get f ''date'')) \<noteq> None"
    by auto
  have doc: "doc \<noteq> []" using p py_int_Nil by auto
  have dt: "strip (form_get f ''date'') \<noteq> []" using q strptime_date_Nil by auto
  show "patient_book_appointment pat f s =
      (if find (\<lambda>a. sqlite_text_int doc = Some (doctor_id a) \<and>
                      date a = strip (form_get f ''date'') \<and>
                      time a = strip (form_get f ''time''))
              (appointments s) \<noteq> None
           then (Inl SlotTaken, s)
         else if find (\<lambda>a. patient_id a = pat \<and> date a = strip (form_get f ''date'') \<and>
                      time a = strip (form_get f ''time''))
              (appointments s) \<noteq> None
           then (Inl PatientConflict, s)
         else
           (Inr (),
            s\<lparr>appointments := appointments s @
                [\<lparr>appt_id = next_id (map appt_id (appointments s)),
                  patient_id = pat, doctor_id = d, date = strip (form_get f ''date''),
                  time = strip (form_get f ''time''),
                  status = ''Booked'', reason = strip (form_get f ''reason'')\<rparr>]\<rparr>))"
    by (simp add: patient_book_appointment_fields [OF assms(1) doc dt assms(2)] assms(3))
  then show "fst (patient_book_appointment pat f s) \<in> {Inl SlotTaken, Inl PatientConflict, Inr ()}"
    by simp
qed

text \<open>
  Claim C4. When the first window retrieved for the doctor has dates that parse to
  \<open>sd\<close> and \<open>ed\<close> and the requested date parses to \<open>bd\<close>, the request is
  rejected with DateOutOfRange exactly when \<open>sd \<le> bd \<le> ed\<close> fails, the dates compared
  as calendar dates. Both bounds are inclusive: a date equal to the start or the end of a
  non-empty range passes, the day after the end and the day before the start are
  rejected. No earlier check rejects such a request.
\<close>

theorem date_check_inclusive:
  assumes "f ''doctor_id'' = Some doc" and "py_int doc = Some d"
    and "first_availability s d = Inr (Some w)"
    and "strptime_date (start_date w) = Some sd" and "strptime_date (end_date w) = Some ed"
    and "strptime_date (strip (form_get f ''date'')) = Some bd"
    and "strip (form_get f ''time'') \<noteq> []"
  shows "(fst (patient_book_appointment pat f s) = Inl DateOutOfRange \<longleftrightarrow> \<not> (sd \<le> bd \<and> bd \<le> ed))
    \<and> (sd \<le> ed \<and> (bd = sd \<or> bd = ed) \<longrightarrow> fst (patient_book_appointment pat f s) \<noteq> Inl DateOutOfRange)
    \<and> (bd = next_day ed \<or> next_day bd = sd \<longrightarrow> fst (patient_book_appointment pat f s) = Inl DateOutOfRange)
    \<and> fst (patient_book_appointment pat f s) \<notin> {Inl MissingField, Inl MalformedInput, Inl NoAvailability}"
proof -
  let ?dt = "strip (form_get f ''date'')" and ?tm = "strip (form_get f ''time'')"
  note cw = check_availability_window [OF assms(2,3,4,5,6), of ?tm]
  have main: "fst (patient_book_appointment pat f s) = Inl DateOutOfRange \<longleftrightarrow> \<not> (sd \<le> bd \<and> bd \<le> ed)"
   and early: "fst (patient_book_appointment pat f s) \<notin> {Inl MissingField, Inl MalformedInput, Inl NoAvailability}"
  proof -
    consider (out) "\<not> (sd \<le> bd \<and> bd \<le> ed)"
      | (tm) "sd \<le> bd \<and> bd \<le> ed" "str_lt ?tm (start_time w) \<or> str_lt (end_time w) ?tm"
      | (ok) "sd \<le> bd \<and> bd \<le> ed" "\<not> (str_lt ?tm (start_time w) \<or> str_lt (end_time w) ?tm)"
      by blast
    then have "(fst (patient_book_appointment pat f s) = Inl DateOutOfRange \<longleftrightarrow> \<not> (sd \<le> bd \<and> bd \<le> ed))
       \<and> fst (patient_book_appointment pat f s) \<notin> {Inl MissingField, Inl MalformedInput, Inl NoAvailability}"
    proof cases
      case out
      then have "check_availability s doc ?dt ?tm = Inl DateOutOfRange" using cw by simp
      from book_after_check [OF assms(1,2,6,7) this] out show ?thesis by simp
    next
      case tm
      then have "check_availability s doc ?dt ?tm = Inl TimeOutOfRange" using cw by simp
      from book_after_check [OF assms(1,2,6,7) this] tm show ?thesis by simp
    next
      case ok
      then have "check_availability s doc ?dt ?tm = Inr d" using cw by simp
      from book_after_pass(1) [OF assms(1,7) this, of pat] ok show ?thesis by auto
    qed
    then show "fst (patient_book_appointment pat f s) = Inl DateOutOfRange \<longleftrightarrow> \<not> (sd \<le> bd \<and> bd \<le> ed)"
      and "fst (patient_book_appointment pat f s) \<notin> {Inl MissingField, Inl MalformedInput, Inl NoAvailability}"
      by blast+
  qed
  have b1: "sd \<le> ed \<and> (bd = sd \<or> bd = ed) \<longrightarrow> fst (patient_book_appointment pat f s) \<noteq> Inl DateOutOfRange"
    using main by auto
  have b2: "bd = next_day ed \<or> next_day bd = sd \<longrightarrow> fst (patient_book_appointment pat f s) = Inl DateOutOfRange"
    using main next_day_greater [of ed] next_day_greater [of bd] by auto
  from main b1 b2 early show ?thesis by blast
qed

theorem date_check_inclusive_witness:
  "fst (patient_book_appointment 7 (book_form ''1'' ''2024-06-07'' ''10:00'') store0)
      \<noteq> Inl DateOutOfRange
   \<and> fst (patient_book_appointment 7 (book_form ''1'' ''2024-06-08'' ''10:00'') store0)
      = Inl DateOutOfRange"
proof -
  have h1: "\<And>dt. book_form ''1'' dt ''10:00'' ''doctor_id'' = Some ''1''"
    by (simp add: data_defs)
  have h2: "py_int ''1'' = Some 1" by (simp add: parse_defs)
  have h3: "first_availability store0 1 = Inr (Some window1)"
    by (simp add: first_availability_def int64_def data_defs)
  have h4: "strptime_date (start_date window1) = Some (2024, 6, 1)"
    by (simp add: data_defs parse_defs)
  have h5: "strptime_date (end_date window1) = Some (2024, 6, 7)"
    by (simp add: data_defs parse_defs)
  have h6: "strptime_date (strip (form_get (book_form ''1'' ''2024-06-07'' ''10:00'') ''date''))
              = Some (2024, 6, 7)"
    by (simp add: data_defs parse_defs)
  have h6': "strptime_date (strip (form_get (book_form ''1'' ''2024-06-08'' ''10:00'') ''date''))
              = Some (2024, 6, 8)"
    by (simp add: data_defs parse_defs)
  have h7: "\<And>dt. strip (form_get (book_form ''1'' dt ''10:00'') ''time'') \<noteq> []"
    by (simp add: data_defs parse_defs)
  have nd: "next_day (2024, 6, 7) = (2024, 6, 8)"
    by (simp add: next_day_def days_in_month_def)
  from date_check_inclusive [OF h1 h2 h3 h4 h5 h6 h7, of 7]
       date_check_inclusive [OF h1 h2 h3 h4 h5 h6' h7, of 7] nd
  show ?thesis by simp
qed

text \<open>
  Claim C5. Once the date is within the window, the request is rejected with
  TimeOutOfRange exactly when \<open>start_time \<le> time \<le> end_time\<close> fails in the
  lexicographic order of the strings; a time equal to either bound passes.
\<close>

theorem time_check_lexicographic:
  assumes "f ''doctor_id'' = Some doc" and "py_int doc = Some d"
    and "first_availability s d = Inr (Some w)"
    and "strptime_date (start_date w) = Some sd" and "strptime_date (end_date w) = Some ed"
    and "strptime_date (strip (form_get f ''date'')) = Some bd"
    and "sd \<le> bd" and "bd \<le> ed"
    and "strip (form_get f ''time'') = tm" and "tm \<noteq> []"
  shows "(fst (patient_book_appointment pat f s) = Inl TimeOutOfRange
            \<longleftrightarrow> \<not> (str_le (start_time w) tm \<and> str_le tm (end_time w)))
    \<and> (str_le (start_time w) (end_time w) \<and> (tm = start_time w \<or> tm = end_time w)
          \<longrightarrow> fst (patient_book_appointment pat f s) \<noteq> Inl TimeOutOfRange)
    \<and> fst (patient_book_appointment pat f s)
          \<notin> {Inl MissingField, Inl MalformedInput, Inl NoAvailability, Inl DateOutOfRange}"
proof -
  let ?dt = "strip (form_get f ''date'')"
  have tm': "strip (form_get f ''time'') \<noteq> []" using assms(9,10) by simp
  have cw: "check_availability s doc ?dt tm =
      (if str_lt tm (start_time w) \<or> str_lt (end_time w) tm then Inl TimeOutOfRange else Inr d)"
    using check_availability_window [OF assms(2,3,4,5,6), of tm] assms(7,8) by simp
  have le: "(str_le (start_time w) tm \<and> str_le tm (end_time w))
              = (\<not> (str_lt tm (start_time w) \<or> str_lt (end_time w) tm))"
    by (simp add: str_lt_total [symmetric])
  have main: "(fst (patient_book_appointment pat f s) = Inl TimeOutOfRange
            \<longleftrightarrow> \<not> (str_le (start_time w) tm \<and> str_le tm (end_time w)))
    \<and> fst (patient_book_appointment pat f s)
          \<notin> {Inl MissingField, Inl MalformedInput, Inl NoAvailability, Inl DateOutOfRange}"
  proof (cases "str_lt tm (start_time w) \<or> str_lt (end_time w) tm")
    case True
    then have "check_availability s doc ?dt (strip (form_get f ''time'')) = Inl TimeOutOfRange"
      using cw assms(9) by simp
    from book_after_check [OF assms(1,2,6) tm' this] True le show ?thesis by simp
  next
    case False
    then have "check_availability s doc ?dt (strip (form_get f ''time'')) = Inr d"
      using cw assms(9) by simp
    from book_after_pass(1) [OF assms(1) tm' this, of pat] False le show ?thesis by auto
  qed
  have b: "str_le (start_time w) (end_time w) \<and> (tm = start_time w \<or> tm = end_time w)
          \<longrightarrow> fst (patient_book_appointment pat f s) \<noteq> Inl TimeOutOfRange"
    using main by (auto simp: str_le_def)
  from main b show ?thesis by blast
qed

theorem time_check_lexicographic_witness:
  "fst (patient_book_appointment 7 (book_form ''1'' ''2024-06-05'' ''17:00'') store0)
      \<noteq> Inl TimeOutOfRange
   \<and> fst (patient_book_appointment 7 (book_form ''1'' ''2024-06-05'' ''08:59'') store0)
      = Inl TimeOutOfRange"
proof -
  have h1: "\<And>tm. book_form ''1'' ''2024-06-05'' tm ''doctor_id'' = Some ''1''"
    by (simp add: data_defs)
  have h2: "py_int ''1'' = Some 1" by (simp add: parse_defs)
  have h3: "first_availability store0 1 = Inr (Some window1)"
    by (simp add: first_availability_def int64_def data_defs)
  have h4: "strptime_date (start_date window1) = Some (2024, 6, 1)"
    by (simp add: data_defs parse_defs)
  have h5: "strptime_date (end_date window1) = Some (2024, 6, 7)"
    by (simp add: data_defs parse_defs)
  have h6: "\<And>tm. strptime_date (strip (form_get (book_form ''1'' ''2024-06-05'' tm) ''date''))
              = Some (2024, 6, 5)"
    by (simp add: data_defs parse_defs)
  have h7: "(2024, 6, 1) \<le> ((2024, 6, 5) :: pydate)" by simp
  have h8: "(2024, 6, 5) \<le> ((2024, 6, 7) :: pydate)" by simp
  have h9: "strip (form_get (book_form ''1'' ''2024-06-05'' ''17:00'') ''time'') = ''17:00''"
    by (simp add: data_defs parse_defs)
  have h9': "strip (form_get (book_form ''1'' ''2024-06-05'' ''08:59'') ''time'') = ''08:59''"
    by (simp add: data_defs parse_defs)
  have n: "''17:00'' \<noteq> []" "''08:59'' \<noteq> []" by simp_all
  from time_check_lexicographic [OF h1 h2 h3 h4 h5 h6 h7 h8 h9 n(1), of 7]
       time_check_lexicographic [OF h1 h2 h3 h4 h5 h6 h7 h8 h9' n(2), of 7]
  show ?thesis by (simp add: window1_def str_le_def)
qed

text \<open>
  Where the store reads from the form's string the integer that \<^verbatim>\<open>int()\<close> reads,
  a row with the same doctor, date and time rejects the request, whatever its status.
\<close>

lemma slot_taken_when_store_reads_id:
  assumes "f ''doctor_id'' = Some doc"
    and "strip (form_get f ''date'') = dt" and "strip (form_get f ''time'') = tm"
    and "tm \<noteq> []"
    and "check_availability s doc dt tm = Inr d"
    and "sqlite_text_int doc = Some d"
    and "a \<in> set (appointments s)"
    and "doctor_id a = d" and "date a = dt" and "time a = tm"
  shows "patient_book_appointment pat f s = (Inl SlotTaken, s)"
proof -
  have tm': "strip (form_get f ''time'') \<noteq> []" using assms(3,4) by simp
  have ck: "check_availability s doc (strip (form_get f ''date'')) (strip (form_get f ''time''))
              = Inr d"
    using assms(2,3,5) by simp
  have "find (\<lambda>a. sqlite_text_int doc = Some (doctor_id a) \<and> date a = dt \<and> time a = tm)
          (appointments s) \<noteq> None"
    using assms(6,7,8,9,10) by (auto simp: find_None_iff)
  then show ?thesis
    using book_after_pass(2) [OF assms(1) tm' ck, of pat] assms(2,3) by simp
qed

text \<open>
  Claim C1 at a concrete request. The availability lookup and the new row use
  \<^verbatim>\<open>int(doc_id)\<close>, the double-booking query the string itself. Python reads the
  string 1_0 as the integer 10; the store reads no integer from it and finds no row. So
  with doctor 10 booked on 2024-06-05 at 10:00, a second patient who names the doctor as
  1_0 is given the same slot: the request is accepted and a second row for doctor 10 at
  that date and time is written.
\<close>

theorem occupied_slot_booked_again:
  "py_int ''1_0'' = Some 10
   \<and> sqlite_text_int ''1_0'' = None
   \<and> appointments store10 = [appt10]
   \<and> doctor_id appt10 = 10 \<and> date appt10 = ''2024-06-05'' \<and> time appt10 = ''10:00''
   \<and> patient_book_appointment 8 (book_form ''1_0'' ''2024-06-05'' ''10:00'') store10
      = (Inr (),
         store10\<lparr>appointments :=
           [appt10,
            \<lparr>appt_id = 2, patient_id = 8, doctor_id = 10, date = ''2024-06-05'',
              time = ''10:00'', status = ''Booked'', reason = []\<rparr>]\<rparr>)"
  by (simp add: patient_book_appointment_def Let_def check_availability_def data_defs
        parse_defs next_id_def)



section \<open>Atomicity of booking\<close>

text \<open>
  Claim C10. Whatever the outcome of a booking request, a rejection (missing field,
  malformed input, no availability, date or time out of range, slot taken, patient
  conflict) leaves the store as it was, and an acceptance appends exactly one appointment
  row, with status 'Booked' and the requesting patient, the doctor, the date and the time
  of the request; no other row and no other table changes.
\<close>

theorem booking_atomic:
  assumes "patient_book_appointment pat f s = (r, s')"
  shows "(\<forall>e. r = Inl e \<longrightarrow> s' = s)
    \<and> (r = Inr () \<longrightarrow>
         (\<exists>doc d. f ''doctor_id'' = Some doc \<and> py_int doc = Some d \<and>
            s' = s\<lparr>appointments := appointments s @
                    [\<lparr>appt_id = next_id (map appt_id (appointments s)),
                      patient_id = pat, doctor_id = d,
                      date = strip (form_get f ''date''),
                      time = strip (form_get f ''time''),
                      status = ''Booked'',
                      reason = strip (form_get f ''reason'')\<rparr>]\<rparr>))"
  using assms
  by (auto simp: patient_book_appointment_def Let_def
           split: option.splits if_splits sum.splits dest: check_availability_Inr)

theorem booking_atomic_witness:
  "snd (patient_book_appointment 7 (book_form ''1'' ''2024-06-05'' ''10:00'') store0)
     = store1 ''Booked''
   \<and> snd (patient_book_appointment 8 (book_form ''1'' ''2024-06-05'' ''10:00'') (store1 ''Booked''))
     = store1 ''Booked''"
proof -
  obtain r1 s1 where e1:
    "patient_book_appointment 7 (book_form ''1'' ''2024-06-05'' ''10:00'') store0 = (r1, s1)"
    by (cases "patient_book_appointment 7 (book_form ''1'' ''2024-06-05'' ''10:00'') store0")
  obtain r2 s2 where e2:
    "patient_book_appointment 8 (book_form ''1'' ''2024-06-05'' ''10:00'') (store1 ''Booked'') = (r2, s2)"
    by (cases "patient_book_appointment 8 (book_form ''1'' ''2024-06-05'' ''10:00'') (store1 ''Booked'')")
  have r1: "r1 = Inr ()"
    using e1 [symmetric]
    by (simp add: patient_book_appointment_def check_availability_def data_defs parse_defs)
  have r2: "r2 = Inl SlotTaken"
    using e2 [symmetric]
    by (simp add: patient_book_appointment_def check_availability_def data_defs parse_defs)
  have p: "py_int ''1'' = Some 1" by (simp add: parse_defs)
  from booking_atomic [OF e1] r1 p have "s1 = store1 ''Booked''"
    by (auto simp: data_defs parse_defs next_id_def)
  moreover from booking_atomic [OF e2] r2 have "s2 = store1 ''Booked''" by simp
  ultimately show ?thesis using e1 e2 by simp
qed

section \<open>Status transitions\<close>

lemma length_set_appt: "length (set_appt k g rows) = length rows"
  by (simp add: set_appt_def)

lemma nth_set_appt:
  "i < length rows \<Longrightarrow>
     set_appt k g rows ! i = (if appt_id (rows ! i) = k then g (rows ! i) else rows ! i)"
  by (simp add: set_appt_def)

lemma appointments_book:
  "appointments (snd (patient_book_appointment pat f s)) = appointments s
   \<or> (\<exists>a. appointments (snd (patient_book_appointment pat f s)) = appointments s @ [a])"
  by (auto simp: patient_book_appointment_def Let_def split: option.splits sum.splits)

lemma appointments_add_availability:
  "appointments (snd (doctor_add_availability today doc f s)) = appointments s"
  by (auto simp: doctor_add_availability_def Let_def split: option.splits)

lemma appointments_delete_availability:
  "appointments (snd (doctor_delete_availability doc k s)) = appointments s"
  by (auto simp: doctor_delete_availability_def split: option.splits)

lemma appointments_toggle:
  "appointments (snd (admin_toggle_doctor_blacklist k s)) = appointments s"
  by (auto simp: admin_toggle_doctor_blacklist_def split: option.splits)

lemma appointments_admin_update:
  "appointments (snd (admin_update_appointment_status k f s)) = appointments s
   \<or> (\<exists>v. v \<in> set [''Booked'', ''Completed'', ''Cancelled''] \<and>
        appointments (snd (admin_update_appointment_status k f s))
          = set_appt k (\<lambda>a. a\<lparr>status := v\<rparr>) (appointments s))"
  by (auto simp: admin_update_appointment_status_def split: option.splits)

lemma appointments_doctor_update:
  "appointments (snd (doctor_update_appointment_status doc k f s)) = appointments s
   \<or> (\<exists>v. v \<in> set [''Booked'', ''Completed'', ''Cancelled''] \<and>
        appointments (snd (doctor_update_appointment_status doc k f s))
          = set_appt k (\<lambda>a. a\<lparr>status := v\<rparr>) (appointments s))"
  by (auto simp: doctor_update_appointment_status_def split: option.splits)

lemma appointments_cancel:
  "appointments (snd (patient_cancel_appointment pat k s)) = appointments s
   \<or> appointments (snd (patient_cancel_appointment pat k s))
          = set_appt k (\<lambda>a. a\<lparr>status := ''Cancelled''\<rparr>) (appointments s)"
  by (auto simp: patient_cancel_appointment_def split: option.splits)

lemma appointments_reschedule:
  "appointments (snd (patient_reschedule_appointment pat k f s)) = appointments s
   \<or> (\<exists>d t. appointments (snd (patient_reschedule_appointment pat k f s))
          = set_appt k (\<lambda>a. a\<lparr>date := d, time := t\<rparr>) (appointments s))"
  by (auto simp: patient_reschedule_appointment_def Let_def split: option.splits)

lemma handle_status:
  assumes "i < length (appointments s)"
  shows "length (appointments s) \<le> length (appointments (handle r s))
    \<and> appt_id (appointments (handle r s) ! i) = appt_id (appointments s ! i)
    \<and> (status (appointments (handle r s) ! i) = status (appointments s ! i)
        \<or> (writes_status r (appt_id (appointments s ! i))
            \<and> status (appointments (handle r s) ! i)
                \<in> set [''Booked'', ''Completed'', ''Cancelled'']))"
proof (cases r)
  case (AdminUpdateStatus k f)
  from appointments_admin_update [of k f s] show ?thesis
    using assms by (auto simp: AdminUpdateStatus length_set_appt nth_set_appt split: if_splits)
next
  case (DoctorUpdateStatus doc k f)
  from appointments_doctor_update [of doc k f s] show ?thesis
    using assms by (auto simp: DoctorUpdateStatus length_set_appt nth_set_appt split: if_splits)
next
  case (PatientBook pat f)
  from appointments_book [of pat f s] show ?thesis
    using assms by (auto simp: PatientBook nth_append)
next
  case (PatientReschedule pat k f)
  from appointments_reschedule [of pat k f s] show ?thesis
    using assms by (auto simp: PatientReschedule length_set_appt nth_set_appt split: if_splits)
next
  case (PatientCancel pat k)
  from appointments_cancel [of pat k s] show ?thesis
    using assms by (auto simp: PatientCancel length_set_appt nth_set_appt split: if_splits)
next
  case (DoctorAddAvailability today doc f)
  then show ?thesis by (simp add: appointments_add_availability)
next
  case (DoctorDeleteAvailability doc k)
  then show ?thesis by (simp add: appointments_delete_availability)
next
  case (AdminToggleDoctorBlacklist k)
  then show ?thesis by (simp add: appointments_toggle)
qed

text \<open>
  Claim C6, as the handlers have it. Over any sequence of requests an appointment row
  stays in the ledger under its primary key, and its status at the end differs from its
  status at the start only if the sequence holds a status write addressed to it (an admin
  or doctor status update, or a patient cancel); the status is then one of 'Booked',
  'Completed', 'Cancelled'. Booking, rescheduling, availability and blacklist requests
  never change the status of an existing row. The status writes do not look at the
  current status, so 'Completed' and 'Cancelled' are not terminal: the counterexample
  below moves a completed appointment back to 'Booked'.
\<close>

theorem status_changes_only_by_status_writes:
  assumes "i < length (appointments s)"
  shows "length (appointments s) \<le> length (appointments (run rs s))
    \<and> appt_id (appointments (run rs s) ! i) = appt_id (appointments s ! i)
    \<and> (status (appointments (run rs s) ! i) = status (appointments s ! i)
        \<or> ((\<exists>r \<in> set rs. writes_status r (appt_id (appointments s ! i)))
            \<and> status (appointments (run rs s) ! i)
                \<in> set [''Booked'', ''Completed'', ''Cancelled'']))"
  using assms
proof (induction rs arbitrary: s)
  case Nil
  then show ?case by simp
next
  case (Cons r rs)
  let ?m = "handle r s"
  note st = handle_status [OF Cons.prems, of r]
  then have i': "i < length (appointments ?m)" using Cons.prems by linarith
  note ih = Cons.IH [OF i']
  have len: "length (appointments s) \<le> length (appointments (run (r # rs) s))"
    using st ih by simp
  have ident: "appt_id (appointments (run (r # rs) s) ! i) = appt_id (appointments s ! i)"
    using st ih by simp
  have stat: "status (appointments (run (r # rs) s) ! i) = status (appointments s ! i)
        \<or> ((\<exists>q \<in> set (r # rs). writes_status q (appt_id (appointments s ! i)))
            \<and> status (appointments (run (r # rs) s) ! i)
                \<in> set [''Booked'', ''Completed'', ''Cancelled''])"
  proof (cases "status (appointments (run rs ?m) ! i) = status (appointments ?m ! i)")
    case True
    with st show ?thesis by auto
  next
    case False
    with ih st show ?thesis by auto
  qed
  from len ident stat show ?case by blast
qed

theorem status_changes_only_by_status_writes_witness:
  "status (appointments
     (run [PatientBook 8 (book_form ''2'' ''2024-06-06'' ''11:00''),
           PatientReschedule 7 1 [''date'' \<mapsto> ''2024-06-06'', ''time'' \<mapsto> ''12:00''],
           AdminToggleDoctorBlacklist 2]
        (store1 ''Completed'')) ! 0) = ''Completed''"
proof -
  have h: "0 < length (appointments (store1 ''Completed''))" by (simp add: data_defs)
  have a: "appointments (store1 ''Completed'') ! 0 = appt1 ''Completed''"
    by (simp add: data_defs)
  from status_changes_only_by_status_writes [OF h,
         of "[PatientBook 8 (book_form ''2'' ''2024-06-06'' ''11:00''),
              PatientReschedule 7 1 [''date'' \<mapsto> ''2024-06-06'', ''time'' \<mapsto> ''12:00''],
              AdminToggleDoctorBlacklist 2]"]
  show ?thesis by (simp add: a appt1_def)
qed

theorem completed_not_terminal_counterexample:
  "status (appointments (store1 ''Completed'') ! 0) = ''Completed''
   \<and> status (appointments
        (run [AdminUpdateStatus 1 [''status'' \<mapsto> ''Booked'']] (store1 ''Completed'')) ! 0)
      = ''Booked''"
  by (simp add: admin_update_appointment_status_def set_appt_def data_defs)

section \<open>Availability registration\<close>







section \<open>Malformed input\<close>

text \<open>
  The date half of the input check: a request whose doctor, date and time fields are
  present and whose trimmed date is refused by the date parser is rejected with
  MalformedInput, and the store is left as it was.
\<close>

lemma unparsable_date_rejected:
  assumes "f ''doctor_id'' = Some doc" and "doc \<noteq> []"
    and "strip (form_get f ''date'') \<noteq> []" and "strip (form_get f ''time'') \<noteq> []"
    and "strptime_date (strip (form_get f ''date'')) = None"
  shows "patient_book_appointment pat f s = (Inl MalformedInput, s)"
proof -
  have "check_availability s doc (strip (form_get f ''date'')) (strip (form_get f ''time''))
          = Inl MalformedInput"
    by (simp add: check_availability_def assms(5))
  then show ?thesis
    by (simp add: patient_book_appointment_fields [OF assms(1-4)])
qed

text \<open>
  Claim C8 at a concrete request. The handler parses the date but never the time, which
  it only compares as a string with the bounds of the window, although the column is
  documented as holding HH:MM (\<^verbatim>\<open>models.py\<close>) and doctor_add_availability
  parses its times with \<^verbatim>\<open>%H:%M\<close>. The time 1 is no HH:MM string, lies between
  09:00 and 17:00 in the string order, and the request is accepted: an appointment whose
  time is the string 1 is written.
\<close>

theorem malformed_time_booking_accepted:
  "strptime_time ''1'' = None
   \<and> patient_book_appointment 7 (book_form ''1'' ''2024-06-05'' ''1'') store0
      = (Inr (),
         store0\<lparr>appointments :=
           [\<lparr>appt_id = 1, patient_id = 7, doctor_id = 1, date = ''2024-06-05'',
             time = ''1'', status = ''Booked'', reason = []\<rparr>]\<rparr>)"
  by (simp add: patient_book_appointment_def Let_def check_availability_def data_defs
        parse_defs next_id_def)

section \<open>Blacklisted doctors\<close>

lemma search_excludes_blacklisted:
  "d \<in> set (patient_search_doctors ilike args s) \<Longrightarrow> is_blacklisted d = Some False"
  by (auto simp: patient_search_doctors_def Let_def split: if_splits)

text \<open>
  Claim C9 at a concrete request. The search page lists only doctors whose blacklist flag
  is \<open>False\<close> (\<open>search_excludes_blacklisted\<close>), and so does the doctor list of
  the booking form, but the POST branch never reads the flag: doctor 1 of the example
  store is blacklisted and a booking that names doctor 1 is accepted.
\<close>

theorem blacklisted_doctor_booking_accepted:
  "find (\<lambda>d. doctor_pk d = 1) (doctors store0)
     = Some \<lparr>doctor_pk = 1, name = ''Dr. John Smith'', specialization = ''Cardiology'',
             is_blacklisted = Some True\<rparr>
   \<and> patient_book_appointment 7 (book_form ''1'' ''2024-06-05'' ''10:00'') store0
      = (Inr (), store1 ''Booked'')"
  by (simp add: patient_book_appointment_def Let_def check_availability_def data_defs
        parse_defs next_id_def)

end
